theory Spec2Isabelle
  imports Complex_Main
begin

section \<open>Data model (backend/app/schemas.py)\<close>

text \<open>
  The pydantic classes become records. Python's \<open>int\<close> is unbounded and is modelled as
  \<open>int\<close>; a \<open>datetime\<close> is an opaque point in time, modelled as a natural number of
  clock ticks. A Python \<open>float\<close> (a double) is modelled by the real number it denotes;
  the section on integers and doubles says which roundings are part of the model.

  The fields of \<open>Alert\<close> carry the prefix \<open>alert_\<close> where the source's name is taken
  (\<open>id\<close> is a HOL constant, \<open>timestamp\<close> and \<open>zone_id\<close> are fields of the other records).
\<close>

type_synonym datetime = nat

record CameraData =
  count :: int

record IngestData =
  source_id :: string
  source_type :: string
  timestamp :: datetime
  data :: CameraData

record ZoneStatus =
  zone_id :: string
  display_name :: string
  density :: real
  risk_level :: string
  predicted_risk_level :: string
  trend :: string

record Alert =
  alert_id :: string
  alert_timestamp :: datetime
  alert_zone_id :: string
  title :: string
  message :: string

record SystemStatus =
  zones :: "ZoneStatus list"
  alerts :: "Alert list"

section \<open>In-memory storage (backend/app/logic.py, lines 7-19)\<close>

text \<open>
  The two module-level dictionaries form the history store. Every operation takes the
  store as an argument; ingestion returns the store it leaves behind, and so does the
  status operation, so that what a read does to the store can be stated.
\<close>

record store =
  current_counts :: "string \<rightharpoonup> int"
  density_history :: "string \<rightharpoonup> int list"

definition init_store :: store where
  "init_store = \<lparr>current_counts = Map.empty, density_history = Map.empty\<rparr>"

definition MAX_HISTORY :: nat where
  "MAX_HISTORY = 10"

text \<open>
  The exceptions that the engine can let through: the one of the model's \<open>predict\<close>,
  and Python's \<open>OverflowError\<close>.
\<close>

datatype error = ModelError | OverflowError

text \<open>
  The loaded model is an external object with one operation, \<open>predict\<close>, which is fed a
  count and either returns a number or raises. \<open>model = None\<close> is the module's
  \<open>model = None\<close> (no file \<open>crowd_predictor.pkl\<close>).
\<close>

type_synonym predictor = "int \<Rightarrow> error + real"

section \<open>Python primitives\<close>

text \<open>\<open>d.get(k, [])\<close>: the stored list, or the empty list for an unknown key.\<close>

definition get_or_empty :: "(string \<rightharpoonup> int list) \<Rightarrow> string \<Rightarrow> int list" where
  "get_or_empty d k = (case d k of None \<Rightarrow> [] | Some h \<Rightarrow> h)"

text \<open>\<open>d.get(k, 0)\<close>: the stored count, or 0 for an unknown key.\<close>

definition get_or_zero :: "(string \<rightharpoonup> int) \<Rightarrow> string \<Rightarrow> int" where
  "get_or_zero d k = (case d k of None \<Rightarrow> 0 | Some c \<Rightarrow> c)"

text \<open>
  The slice \<open>xs[-n:]\<close>: the last \<open>n\<close> elements, the whole list when it is shorter
  (and, as in Python, the whole list for \<open>n = 0\<close>, where \<open>-0\<close> is \<open>0\<close>).
\<close>

definition slice_last :: "nat \<Rightarrow> 'a list \<Rightarrow> 'a list" where
  "slice_last n xs = (if n = 0 then xs else drop (length xs - n) xs)"

section \<open>Integers and doubles\<close>

text \<open>
  The counts are Python integers of any size; numpy and the float arithmetic are not.
  What is modelled:
  \<^item> the conversion of an integer to a double rounds to 53 significant bits, to
    nearest and ties to even (Python's \<open>int / float\<close>, numpy's cast of an int64 element),
    and in Python it raises \<open>OverflowError\<close> when the rounded value reaches \<open>2 ^ 1024\<close>;
  \<^item> the float64 sum of doubles that are whole numbers is their sum rounded the same way;
  \<^item> an array of Python integers that all fit 64 signed bits is an int64 array
    (numpy's default integer on Linux and macOS, and everywhere from numpy 2 on), and
    its differences wrap around modulo \<open>2 ^ 64\<close>;
  \<^item> what numpy does with a list holding an integer outside that range (it builds a
    uint64, a float64 or an object array, and its arithmetic on the latter may raise,
    depending on the values and on numpy's version) is not fixed by the source: it is a
    parameter of the operations that reach it.

  What is not modelled: the rounding of fractions (the division by \<open>200.0\<close>, the sum of
  a density and a scaled trend), which is relative \<open>2 ^ -53\<close> at most; these operations
  are the exact ones on the reals. Infinities and NaN are not values of the model.
\<close>

text \<open>\<open>int.bit_length\<close> of a non-negative integer.\<close>

fun bit_length :: "nat \<Rightarrow> nat" where
  "bit_length n = (if n = 0 then 0 else Suc (bit_length (n div 2)))"

declare bit_length.simps [simp del]

text \<open>
  The double nearest to an integer, which is an integer again: the \<open>k\<close> bits below the
  leading 53 are dropped, rounding to nearest and ties to even.
\<close>

definition round_to_double :: "int \<Rightarrow> int" where
  "round_to_double n =
     (let m = \<bar>n\<bar>;
          k = bit_length (nat m) - 53;
          q = m div 2 ^ k;
          r = m mod 2 ^ k;
          q' = (if 2 * r > 2 ^ k \<or> (2 * r = 2 ^ k \<and> odd q) then q + 1 else q)
      in sgn n * (q' * 2 ^ k))"

text \<open>Python's conversion of an \<open>int\<close> operand of a float operation.\<close>

definition float_of_int :: "int \<Rightarrow> error + real" where
  "float_of_int n =
     (if 2 ^ 1024 \<le> \<bar>round_to_double n\<bar> then Inl OverflowError
      else Inr (real_of_int (round_to_double n)))"

definition fits_int64 :: "int \<Rightarrow> bool" where
  "fits_int64 x = (- (2 ^ 63) \<le> x \<and> x < 2 ^ 63)"

definition wrap_int64 :: "int \<Rightarrow> int" where
  "wrap_int64 x = (x + 2 ^ 63) mod 2 ^ 64 - 2 ^ 63"

text \<open>\<open>np.diff\<close> of an int64 array: \<open>out[i] = a[i+1] - a[i]\<close>, in 64 signed bits.\<close>

definition np_diff :: "int list \<Rightarrow> int list" where
  "np_diff xs = map (\<lambda>(a, b). wrap_int64 (b - a)) (zip xs (tl xs))"

text \<open>
  \<open>np.mean\<close> of a non-empty int64 array: the elements are cast to float64 and added
  from left to right in float64 (numpy's order for fewer than 8 elements), and the sum
  is divided by the number of elements. Both callers reach it with the two differences
  of three entries; the mean of an empty array (numpy's \<open>nan\<close>) is never computed.
\<close>

definition np_mean :: "int list \<Rightarrow> real" where
  "np_mean xs =
     real_of_int (foldl (\<lambda>acc x. round_to_double (acc + round_to_double x)) 0 xs)
       / real (length xs)"

text \<open>
  What \<open>np.mean(np.diff(a))\<close> returns or raises for an array \<open>a\<close> that is not an int64
  array, given the list whose conversion fixed the type of the array and the elements
  that \<open>a\<close> holds.
\<close>

type_synonym numpy_wide = "int list \<Rightarrow> int list \<Rightarrow> error + real"

text \<open>
  \<open>np.mean(np.diff(a))\<close>, where \<open>a\<close> holds the elements \<open>xs\<close> and is (a slice of) the
  array that numpy made of the list \<open>src\<close>.
\<close>

definition mean_of_diff :: "numpy_wide \<Rightarrow> int list \<Rightarrow> int list \<Rightarrow> error + real" where
  "mean_of_diff w src xs =
     (if list_all fits_int64 src then Inr (np_mean (np_diff xs)) else w src xs)"

section \<open>Ingestion (logic.py, lines 22-35)\<close>

definition process_new_data :: "IngestData \<Rightarrow> store \<Rightarrow> store" where
  "process_new_data d st =
     (let source = source_id d;
          cnt = count (data d);
          counts' = (current_counts st)(source \<mapsto> cnt);
          created = (case density_history st source of None \<Rightarrow> [] | Some h \<Rightarrow> h);
          appended = created @ [cnt];
          trimmed = (if length appended > MAX_HISTORY
                     then slice_last MAX_HISTORY appended else appended)
      in \<lparr>current_counts = counts',
          density_history = (density_history st)(source \<mapsto> trimmed)\<rparr>)"

text \<open>
  The endpoint \<open>/api/ingest\<close> (main.py) calls \<open>process_new_data\<close> once per reading;
  a sequence of requests is a left-to-right fold over the store.
\<close>

definition ingest_all :: "IngestData list \<Rightarrow> store \<Rightarrow> store" where
  "ingest_all rs st = fold process_new_data rs st"

section \<open>Prediction (logic.py, lines 39-62)\<close>

text \<open>Lines 57-62: the final classification of the predicted density.\<close>

definition risk_of_prediction :: "real \<Rightarrow> string" where
  "risk_of_prediction predicted_density =
     (if predicted_density > 0.8 then ''high''
      else if predicted_density > 0.5 then ''medium''
      else ''low'')"

text \<open>
  Line 45: the most recent recorded count of the source, 0 without history. (The
  source's parameter \<open>zone_id\<close> is written \<open>zid\<close>: the name is a field of
  \<open>ZoneStatus\<close>.)
\<close>

definition prev_count :: "store \<Rightarrow> string \<Rightarrow> int" where
  "prev_count st zid =
     (case density_history st zid of
        None \<Rightarrow> 0
      | Some h \<Rightarrow> if h = [] then 0 else last h)"

text \<open>Lines 45-47, then 57-62: the model branch. An exception of \<open>predict\<close> is not caught.\<close>

definition model_based :: "predictor \<Rightarrow> store \<Rightarrow> string \<Rightarrow> error + string" where
  "model_based m st zid =
     (case m (prev_count st zid) of
        Inl e \<Rightarrow> Inl e
      | Inr predicted_count \<Rightarrow>
          Inr (risk_of_prediction (min (max (predicted_count / 200) 0) 1)))"

text \<open>
  Lines 50-54, then 57-62: the trend-based fallback, with its early return. The array
  is made of the whole history (line 50) and then sliced (line 53). (The parameter
  \<open>density\<close> is written \<open>dens\<close>, for the same reason as \<open>zid\<close>.)
\<close>

definition trend_based :: "numpy_wide \<Rightarrow> store \<Rightarrow> string \<Rightarrow> real \<Rightarrow> error + string" where
  "trend_based w st zid dens =
     (let history = get_or_empty (density_history st) zid in
      if length history < 3 then Inr ''low''
      else
        (case mean_of_diff w history (slice_last 3 history) of
           Inl e \<Rightarrow> Inl e
         | Inr recent_trend \<Rightarrow>
             Inr (risk_of_prediction (min (max (dens + recent_trend / 200) 0) 1))))"

text \<open>Line 44: \<open>if model and zone_id == "cam_01"\<close>.\<close>

definition predict_future_risk ::
  "numpy_wide \<Rightarrow> predictor option \<Rightarrow> store \<Rightarrow> string \<Rightarrow> real \<Rightarrow> error + string" where
  "predict_future_risk w model st zid dens =
     (case model of
        None \<Rightarrow> trend_based w st zid dens
      | Some m \<Rightarrow>
          if zid = ''cam_01'' then model_based m st zid
          else trend_based w st zid dens)"

section \<open>Status (logic.py, lines 65-141)\<close>

text \<open>Lines 78-84.\<close>

definition get_risk :: "real \<Rightarrow> string" where
  "get_risk d =
     (if d > 0.8 then ''high''
      else if d > 0.5 then ''medium''
      else ''low'')"

text \<open>
  Lines 91-101. Here the list is sliced first (line 95), and numpy makes the array of
  the last three entries only.
\<close>

definition get_trend :: "numpy_wide \<Rightarrow> store \<Rightarrow> string \<Rightarrow> error + string" where
  "get_trend w st source =
     (let hist = get_or_empty (density_history st) source in
      if length hist < 3 then Inr ''stable''
      else
        (case mean_of_diff w (slice_last 3 hist) (slice_last 3 hist) of
           Inl e \<Rightarrow> Inl e
         | Inr diff \<Rightarrow>
             Inr (if diff > 2 then ''up''
                  else if diff < - 2 then ''down''
                  else ''stable'')))"

text \<open>
  The warning sign that opens both alert titles, as its UTF-8 bytes
  (U+26A0 U+FE0F).
\<close>

definition warning_sign :: string where
  "warning_sign = [CHR 0xE2, CHR 0x9A, CHR 0xA0, CHR 0xEF, CHR 0xB8, CHR 0x8F]"

text \<open>Lines 123-139: the alerts, given the two zones and the two clock readings.\<close>

definition make_alerts :: "datetime \<Rightarrow> datetime \<Rightarrow> ZoneStatus \<Rightarrow> ZoneStatus \<Rightarrow> Alert list" where
  "make_alerts now1 now2 zone1 zone2 =
     (if risk_level zone1 = ''high'' then
        [\<lparr>alert_id = ''alert_1'',
          alert_timestamp = now1,
          alert_zone_id = ''gate_a'',
          title = warning_sign @ '' High Risk at Main Gate A'',
          message = ''Crowd density critical. Please redirect flow.''\<rparr>]
      else [])
     @
     (if risk_level zone2 = ''high'' then
        [\<lparr>alert_id = ''alert_2'',
          alert_timestamp = now2,
          alert_zone_id = ''stage_front'',
          title = warning_sign @ '' High Risk at Stage Front'',
          message = ''High density detected. Manage access routes.''\<rparr>]
      else [])"

text \<open>
  \<open>get_system_status\<close>. The two calls of \<open>datetime.utcnow()\<close> read the wall clock; what
  they return is an input of the model: \<open>now1\<close> is the reading at line 126, \<open>now2\<close> the
  one at line 135 (each is used only when its alert is made). The result is paired with
  the store the call leaves behind; every access to the store is a \<open>.get\<close>. The
  statements that can raise are taken in the source's order: the two divisions of a
  count by \<open>200.0\<close> (lines 74, 75), the two predictions (lines 87, 88) and the two
  trends (lines 109, 118).
\<close>

definition get_system_status ::
  "numpy_wide \<Rightarrow> predictor option \<Rightarrow> datetime \<Rightarrow> datetime \<Rightarrow> store
     \<Rightarrow> (error + SystemStatus) \<times> store" where
  "get_system_status w model now1 now2 st =
     (let gate_a_count = get_or_zero (current_counts st) ''cam_01'';
          stage_count = get_or_zero (current_counts st) ''cam_02''
      in
        case float_of_int gate_a_count of
          Inl e \<Rightarrow> (Inl e, st)
        | Inr gate_a_float \<Rightarrow>
       (case float_of_int stage_count of
          Inl e \<Rightarrow> (Inl e, st)
        | Inr stage_float \<Rightarrow>
       (let density_a = min (gate_a_float / 200) 1;
            density_b = min (stage_float / 200) 1
        in
        case predict_future_risk w model st ''cam_01'' density_a of
          Inl e \<Rightarrow> (Inl e, st)
        | Inr predicted_risk_a \<Rightarrow>
       (case predict_future_risk w model st ''cam_02'' density_b of
          Inl e \<Rightarrow> (Inl e, st)
        | Inr predicted_risk_b \<Rightarrow>
       (case get_trend w st ''cam_01'' of
          Inl e \<Rightarrow> (Inl e, st)
        | Inr trend_a \<Rightarrow>
       (case get_trend w st ''cam_02'' of
          Inl e \<Rightarrow> (Inl e, st)
        | Inr trend_b \<Rightarrow>
           (let zone1 = \<lparr>zone_id = ''gate_a'',
                         display_name = ''Main Gate A'',
                         density = density_a,
                         risk_level = get_risk density_a,
                         predicted_risk_level = predicted_risk_a,
                         trend = trend_a\<rparr>;
                zone2 = \<lparr>zone_id = ''stage_front'',
                         display_name = ''Stage Front'',
                         density = density_b,
                         risk_level = get_risk density_b,
                         predicted_risk_level = predicted_risk_b,
                         trend = trend_b\<rparr>
            in (Inr \<lparr>zones = [zone1, zone2],
                      alerts = make_alerts now1 now2 zone1 zone2\<rparr>, st))))))))"

section \<open>Auxiliary notions used to state the properties\<close>

text \<open>The order of the risk levels: low, then medium, then high.\<close>

definition risk_rank :: "string \<Rightarrow> nat" where
  "risk_rank r = (if r = ''high'' then 2 else if r = ''medium'' then 1 else 0)"

text \<open>A camera reading of a source; the fields the engine does not read are fixed.\<close>

definition reading :: "string \<Rightarrow> int \<Rightarrow> IngestData" where
  "reading s c = \<lparr>source_id = s, source_type = ''camera'', timestamp = 0, data = \<lparr>count = c\<rparr>\<rparr>"

text \<open>The counts that a sequence of readings carries for one source, in arrival order.\<close>

definition counts_for :: "string \<Rightarrow> IngestData list \<Rightarrow> int list" where
  "counts_for s rs = map (\<lambda>r. count (data r)) (filter (\<lambda>r. source_id r = s) rs)"

text \<open>A status with the clock readings of its alerts erased.\<close>

definition without_timestamps :: "SystemStatus \<Rightarrow> SystemStatus" where
  "without_timestamps out = out\<lparr>alerts := map (\<lambda>a. a\<lparr>alert_timestamp := 0\<rparr>) (alerts out)\<rparr>"

text \<open>The bound on a count under which the trend arithmetic is exact.\<close>

definition small_count :: "int \<Rightarrow> bool" where
  "small_count c = (\<bar>c\<bar> \<le> 2 ^ 52)"

text \<open>
  The trend delta of the specification: the mean of the two consecutive differences of
  the last three entries of a history, in exact arithmetic.
\<close>

definition exact_delta :: "int list \<Rightarrow> real" where
  "exact_delta h =
     (let n = length h
      in (real_of_int (h ! (n - 2) - h ! (n - 3)) +
          real_of_int (h ! (n - 1) - h ! (n - 2))) / 2)"

text \<open>A model whose \<open>predict\<close> raises on every input.\<close>

fun failing_model :: predictor where
  "failing_model c = Inl ModelError"

text \<open>
  The model of create\_dummy\_model.py: a linear regression through (50, 100),
  (100, 200), (150, 300), that is, twice the count.
\<close>

fun dummy_model :: predictor where
  "dummy_model c = Inr (2 * real_of_int c)"

text \<open>A numpy that raises \<open>OverflowError\<close> on every array that is not an int64 array.\<close>

fun numpy_overflow :: numpy_wide where
  "numpy_overflow src xs = Inl OverflowError"

text \<open>The store after the readings 100, 150, 220, 260 of \<open>cam_01\<close>.\<close>

definition scenario_b :: store where
  "scenario_b = ingest_all (map (reading ''cam_01'') [100, 150, 220, 260]) init_store"

text \<open>The store after the readings 100, 130, 150 of \<open>cam_02\<close>.\<close>

definition scenario_c :: store where
  "scenario_c = ingest_all (map (reading ''cam_02'') [100, 130, 150]) init_store"

text \<open>
  The store after the readings \<open>2 ^ 62\<close>, 0, \<open>2 ^ 62 + 6\<close> of \<open>cam_01\<close>; all three fit
  64 signed bits.
\<close>

definition scenario_big :: store where
  "scenario_big = ingest_all (map (reading ''cam_01'') [2 ^ 62, 0, 2 ^ 62 + 6]) init_store"

section \<open>Rounding and wrap-around\<close>

lemma bit_length_le: "n < 2 ^ k \<Longrightarrow> bit_length n \<le> k"
proof (induction k arbitrary: n)
  case 0
  then show ?case by (simp add: bit_length.simps)
next
  case (Suc k)
  show ?case
  proof (cases "n = 0")
    case True
    then show ?thesis by (simp add: bit_length.simps)
  next
    case False
    from Suc.prems have "n div 2 < 2 ^ k" by simp
    from Suc.IH [OF this] False show ?thesis
      by (subst bit_length.simps) simp
  qed
qed

lemma bit_length_eq: "n < 2 ^ Suc k \<Longrightarrow> 2 ^ k \<le> n \<Longrightarrow> bit_length n = Suc k"
proof (induction k arbitrary: n)
  case 0
  then have "n = 1" by simp
  then show ?case by (simp add: bit_length.simps)
next
  case (Suc k)
  from Suc.prems have "n div 2 < 2 ^ Suc k" "2 ^ k \<le> n div 2" "n \<noteq> 0"
    by auto
  from Suc.IH [OF this(1,2)] this(3) show ?case
    by (subst bit_length.simps) simp
qed

lemma round_to_double_exact:
  assumes "bit_length (nat \<bar>n\<bar>) \<le> 53"
  shows "round_to_double n = n"
proof -
  from assms have "bit_length (nat \<bar>n\<bar>) - 53 = 0" by simp
  then show ?thesis
    by (simp add: round_to_double_def Let_def mult_sgn_abs)
qed

lemma round_to_double_edge:
  "round_to_double (2 ^ 53) = 2 ^ 53" "round_to_double (- (2 ^ 53)) = - (2 ^ 53)"
proof -
  have a: "bit_length (nat \<bar>2 ^ 53 :: int\<bar>) = Suc 53"
    by (rule bit_length_eq) simp_all
  have b: "bit_length (nat \<bar>- (2 ^ 53) :: int\<bar>) = Suc 53"
    by (rule bit_length_eq) simp_all
  show "round_to_double (2 ^ 53) = 2 ^ 53"
    unfolding round_to_double_def Let_def a by simp
  show "round_to_double (- (2 ^ 53)) = - (2 ^ 53)"
    unfolding round_to_double_def Let_def b by simp
qed

lemma round_to_double_small:
  assumes "\<bar>n\<bar> \<le> 2 ^ 53"
  shows "round_to_double n = n"
proof (cases "\<bar>n\<bar> = 2 ^ 53")
  case True
  then have "n = 2 ^ 53 \<or> n = - (2 ^ 53)" by arith
  then show ?thesis using round_to_double_edge by auto
next
  case False
  with assms have "nat \<bar>n\<bar> < 2 ^ 53" by simp
  from bit_length_le [OF this] show ?thesis
    by (rule round_to_double_exact)
qed

lemma float_of_int_small:
  assumes "\<bar>n\<bar> \<le> 2 ^ 53"
  shows "float_of_int n = Inr (real_of_int n)"
proof -
  have "\<bar>n\<bar> < 2 ^ 1024" using assms by simp
  then show ?thesis
    by (simp add: float_of_int_def round_to_double_small [OF assms])
qed

lemma wrap_int64_id: "fits_int64 x \<Longrightarrow> wrap_int64 x = x"
  by (simp add: fits_int64_def wrap_int64_def)

lemma small_fits: "small_count c \<Longrightarrow> fits_int64 c"
  unfolding small_count_def fits_int64_def by simp arith

lemma np_mean_diff_small:
  assumes "small_count a" "small_count b" "small_count c"
  shows "np_mean (np_diff [a, b, c]) = (real_of_int (b - a) + real_of_int (c - b)) / 2"
proof -
  from assms have d1: "\<bar>b - a\<bar> \<le> 2 ^ 53" and d2: "\<bar>c - b\<bar> \<le> 2 ^ 53"
    and s: "\<bar>(b - a) + (c - b)\<bar> \<le> 2 ^ 53"
    unfolding small_count_def by auto
  from d1 d2 have "fits_int64 (b - a)" "fits_int64 (c - b)"
    unfolding fits_int64_def by auto
  then have w: "wrap_int64 (b - a) = b - a" "wrap_int64 (c - b) = c - b"
    by (simp_all add: wrap_int64_id)
  have "np_mean (np_diff [a, b, c]) =
      real_of_int (round_to_double (round_to_double (b - a) + round_to_double (c - b))) / 2"
    by (simp add: np_mean_def np_diff_def w round_to_double_small [OF d1])
  also have "\<dots> = real_of_int ((b - a) + (c - b)) / 2"
    by (simp only: round_to_double_small [OF d1] round_to_double_small [OF d2]
          round_to_double_small [OF s])
  finally show ?thesis by simp
qed

lemma round_big: "round_to_double (2 ^ 62 + 6) = 2 ^ 62" "round_to_double (- (2 ^ 62)) = - (2 ^ 62)"
proof -
  have a: "bit_length (nat \<bar>2 ^ 62 + 6 :: int\<bar>) = Suc 62"
    by (rule bit_length_eq) simp_all
  have b: "bit_length (nat \<bar>- (2 ^ 62) :: int\<bar>) = Suc 62"
    by (rule bit_length_eq) simp_all
  show "round_to_double (2 ^ 62 + 6) = 2 ^ 62"
    unfolding round_to_double_def Let_def a by simp
  show "round_to_double (- (2 ^ 62)) = - (2 ^ 62)"
    unfolding round_to_double_def Let_def b by simp
qed

lemma np_mean_diff_big: "np_mean (np_diff [2 ^ 62, 0, 2 ^ 62 + 6]) = 0"
proof -
  have "np_diff [2 ^ 62, 0, 2 ^ 62 + 6] = [- (2 ^ 62), 2 ^ 62 + 6]"
    by (simp add: np_diff_def wrap_int64_def)
  then show ?thesis
    by (simp only: np_mean_def foldl.simps round_big add_0 add.left_neutral) (simp add: round_to_double_def)
qed

section \<open>Evaluated stores\<close>

lemma scenario_b_store:
  "current_counts scenario_b = [''cam_01'' \<mapsto> 260] \<and>
   density_history scenario_b = [''cam_01'' \<mapsto> [100, 150, 220, 260]]"
  by (simp add: scenario_b_def ingest_all_def process_new_data_def reading_def init_store_def
        Let_def MAX_HISTORY_def)

lemma scenario_c_store:
  "current_counts scenario_c = [''cam_02'' \<mapsto> 150] \<and>
   density_history scenario_c = [''cam_02'' \<mapsto> [100, 130, 150]]"
  by (simp add: scenario_c_def ingest_all_def process_new_data_def reading_def init_store_def
        Let_def MAX_HISTORY_def)

lemma scenario_big_store:
  "current_counts scenario_big = [''cam_01'' \<mapsto> 2 ^ 62 + 6] \<and>
   density_history scenario_big = [''cam_01'' \<mapsto> [2 ^ 62, 0, 2 ^ 62 + 6]]"
  by (simp add: scenario_big_def ingest_all_def process_new_data_def reading_def init_store_def
        Let_def MAX_HISTORY_def)

section \<open>The ingestion frame\<close>

text \<open>
  C10. Ingesting a reading for a source changes the entries of that source only: for every
  other source identifier the latest count and the history window are what they were.
\<close>

theorem process_new_data_frame:
  "s' \<noteq> source_id d \<Longrightarrow>
     current_counts (process_new_data d st) s' = current_counts st s' \<and>
     density_history (process_new_data d st) s' = density_history st s'"
  by (simp add: process_new_data_def Let_def)

theorem process_new_data_frame_witness:
  "''cam_01'' \<noteq> source_id (reading ''cam_02'' 7) \<and>
   current_counts (process_new_data (reading ''cam_02'' 7) scenario_b) ''cam_01'' = Some 260 \<and>
   density_history (process_new_data (reading ''cam_02'' 7) scenario_b) ''cam_01''
     = Some [100, 150, 220, 260] \<and>
   current_counts (process_new_data (reading ''cam_02'' 7) scenario_b) ''cam_02'' = Some 7"
proof -
  have ne: "''cam_01'' \<noteq> source_id (reading ''cam_02'' 7)"
    by (simp add: reading_def)
  have new: "current_counts (process_new_data (reading ''cam_02'' 7) scenario_b) ''cam_02'' = Some 7"
    by (simp add: process_new_data_def reading_def Let_def)
  from process_new_data_frame [OF ne, of scenario_b] ne new show ?thesis
    by (simp add: scenario_b_store)
qed

section \<open>The bounded history window\<close>

lemma slice_last_snoc:
  "0 < n \<Longrightarrow> slice_last n (slice_last n cs @ [c]) = slice_last n (cs @ [c])"
proof (cases "length cs \<le> n")
  case True
  then show ?thesis by (simp add: slice_last_def)
next
  case False
  then have "length cs - n + n = length cs" "Suc (length cs) - n = Suc (length cs - n)"
    by simp_all
  with False show ?thesis by (simp add: slice_last_def)
qed

lemma slice_last_short: "length xs \<le> n \<Longrightarrow> slice_last n xs = xs"
  by (simp add: slice_last_def)

lemma window_step:
  "density_history (process_new_data d st) (source_id d) =
     Some (slice_last MAX_HISTORY (get_or_empty (density_history st) (source_id d) @ [count (data d)]))"
  by (simp add: process_new_data_def Let_def get_or_empty_def slice_last_short split: option.splits)

lemma latest_step:
  "current_counts (process_new_data d st) (source_id d) = Some (count (data d))"
  by (simp add: process_new_data_def Let_def)

lemma other_step:
  "s \<noteq> source_id d \<Longrightarrow>
     density_history (process_new_data d st) s = density_history st s \<and>
     current_counts (process_new_data d st) s = current_counts st s"
  by (simp add: process_new_data_def Let_def)

lemma ingest_all_snoc: "ingest_all (rs @ [r]) st = process_new_data r (ingest_all rs st)"
  by (simp add: ingest_all_def)

lemma counts_for_snoc:
  "counts_for s (rs @ [r]) = (if source_id r = s then counts_for s rs @ [count (data r)] else counts_for s rs)"
  by (simp add: counts_for_def)

lemma ingest_all_store:
  "density_history (ingest_all rs init_store) s =
     (if counts_for s rs = [] then None else Some (slice_last MAX_HISTORY (counts_for s rs))) \<and>
   current_counts (ingest_all rs init_store) s =
     (if counts_for s rs = [] then None else Some (last (counts_for s rs)))"
proof (induction rs rule: rev_induct)
  case Nil
  show ?case by (simp add: ingest_all_def init_store_def counts_for_def)
next
  case (snoc r rs)
  show ?case
  proof (cases "source_id r = s")
    case True
    have pos: "0 < MAX_HISTORY" by (simp add: MAX_HISTORY_def)
    from snoc True show ?thesis
      using window_step [of r "ingest_all rs init_store"] latest_step [of r "ingest_all rs init_store"]
      by (simp add: ingest_all_snoc counts_for_snoc get_or_empty_def slice_last_snoc [OF pos]
            slice_last_short)
  next
    case False
    then have "s \<noteq> source_id r" by blast
    from other_step [OF this, of "ingest_all rs init_store"] snoc False show ?thesis
      by (simp add: ingest_all_snoc counts_for_snoc)
  qed
qed

text \<open>
  C1. Start from the empty store and ingest any sequence of readings (of any sources).
  For a source that has been sent at least one count, the history window is the
  sequence of that source's counts in arrival order with all but the last
  \<open>MAX_HISTORY\<close> dropped from the front; it has at most \<open>MAX_HISTORY\<close> entries; and
  the stored latest count is the last count that was sent. The sequence is arbitrary,
  so this holds after every call.
\<close>

theorem history_window_invariant:
  assumes "counts_for s rs \<noteq> []"
  shows "density_history (ingest_all rs init_store) s
           = Some (drop (length (counts_for s rs) - MAX_HISTORY) (counts_for s rs)) \<and>
         length (get_or_empty (density_history (ingest_all rs init_store)) s) \<le> MAX_HISTORY \<and>
         current_counts (ingest_all rs init_store) s = Some (last (counts_for s rs))"
  using assms ingest_all_store [of rs s]
  by (simp add: get_or_empty_def slice_last_def MAX_HISTORY_def)

theorem history_window_invariant_witness:
  "counts_for ''cam_01'' (map (reading ''cam_01'') [1, 2, 3, 4, 5, 6, 7, 8, 9, 10, 11, 12]) \<noteq> [] \<and>
   density_history (ingest_all (map (reading ''cam_01'') [1, 2, 3, 4, 5, 6, 7, 8, 9, 10, 11, 12]) init_store) ''cam_01''
     = Some [3, 4, 5, 6, 7, 8, 9, 10, 11, 12] \<and>
   current_counts (ingest_all (map (reading ''cam_01'') [1, 2, 3, 4, 5, 6, 7, 8, 9, 10, 11, 12]) init_store) ''cam_01''
     = Some 12"
proof -
  let ?rs = "map (reading ''cam_01'') [1, 2, 3, 4, 5, 6, 7, 8, 9, 10, 11, 12]"
  have cs: "counts_for ''cam_01'' ?rs = [1, 2, 3, 4, 5, 6, 7, 8, 9, 10, 11, 12]"
    by (simp add: counts_for_def reading_def)
  have ne: "counts_for ''cam_01'' ?rs \<noteq> []"
    unfolding cs by simp
  from history_window_invariant [OF ne] ne show ?thesis
    unfolding cs by (simp add: MAX_HISTORY_def)
qed

section \<open>The trend over the last three entries\<close>

lemma length_three:
  "length xs = 3 \<Longrightarrow> \<exists>a b c. xs = [a, b, c]"
  by (auto simp: length_Suc_conv numeral_3_eq_3)

lemma slice_last_three:
  assumes "3 \<le> length h"
  shows "slice_last 3 h = [h ! (length h - 3), h ! (length h - 2), h ! (length h - 1)]"
proof -
  let ?k = "length h - 3"
  have len: "length (drop ?k h) = 3" using assms by simp
  from length_three [OF len] obtain a b c where abc: "drop ?k h = [a, b, c]"
    by blast
  have "a = drop ?k h ! 0" "b = drop ?k h ! 1" "c = drop ?k h ! 2"
    by (simp_all add: abc)
  moreover have "?k + 1 = length h - 2" "?k + 2 = length h - 1"
    using assms by simp_all
  ultimately have "a = h ! ?k" "b = h ! (length h - 2)" "c = h ! (length h - 1)"
    using assms by simp_all
  with abc show ?thesis by (simp add: slice_last_def)
qed

lemma small_all_fit: "list_all small_count h \<Longrightarrow> list_all fits_int64 h"
  by (auto simp: list_all_iff small_fits)

lemma recent_trend_small:
  assumes "3 \<le> length h" and "list_all small_count (slice_last 3 h)"
  shows "np_mean (np_diff (slice_last 3 h)) = exact_delta h"
proof -
  from assms(2) have
    "small_count (h ! (length h - 3))" "small_count (h ! (length h - 2))"
    "small_count (h ! (length h - 1))"
    by (simp_all add: slice_last_three [OF assms(1)])
  from np_mean_diff_small [OF this] show ?thesis
    by (simp add: slice_last_three [OF assms(1)] exact_delta_def Let_def)
qed

lemma risk_of_prediction_eq: "risk_of_prediction d = get_risk d"
  by (simp add: risk_of_prediction_def get_risk_def)

text \<open>
  C7, as the code has it. With fewer than 3 entries in the source's history the trend
  label is \<open>stable\<close>. With at least 3, the last three of which are at most \<open>2 ^ 52\<close> in
  absolute value, the trend delta that the code computes is the mean of the two
  consecutive differences of the last three entries, and the label is \<open>up\<close> when the
  delta is greater than 2, \<open>down\<close> when it is less than -2, and \<open>stable\<close> otherwise.
\<close>

theorem get_trend_label:
  "let h = get_or_empty (density_history st) s in
   (length h < 3 \<longrightarrow> get_trend w st s = Inr ''stable'') \<and>
   (3 \<le> length h \<and> list_all small_count (slice_last 3 h) \<longrightarrow>
      mean_of_diff w (slice_last 3 h) (slice_last 3 h) = Inr (exact_delta h) \<and>
      get_trend w st s =
        Inr (if exact_delta h > 2 then ''up''
             else if exact_delta h < - 2 then ''down'' else ''stable''))"
proof -
  let ?h = "get_or_empty (density_history st) s"
  have short: "length ?h < 3 \<longrightarrow> get_trend w st s = Inr ''stable''"
    by (simp add: get_trend_def Let_def)
  have long: "mean_of_diff w (slice_last 3 ?h) (slice_last 3 ?h) = Inr (exact_delta ?h) \<and>
      get_trend w st s =
        Inr (if exact_delta ?h > 2 then ''up''
             else if exact_delta ?h < - 2 then ''down'' else ''stable'')"
    if len: "3 \<le> length ?h" and small: "list_all small_count (slice_last 3 ?h)"
  proof -
    have m: "mean_of_diff w (slice_last 3 ?h) (slice_last 3 ?h) = Inr (exact_delta ?h)"
      by (simp add: mean_of_diff_def small_all_fit [OF small] recent_trend_small [OF len small])
    from len show ?thesis
      by (simp add: get_trend_def Let_def m)
  qed
  from short long show ?thesis by (simp add: Let_def)
qed

theorem get_trend_label_witness:
  "3 \<le> length (get_or_empty (density_history scenario_c) ''cam_02'') \<and>
   list_all small_count (slice_last 3 (get_or_empty (density_history scenario_c) ''cam_02'')) \<and>
   exact_delta (get_or_empty (density_history scenario_c) ''cam_02'') = 25 \<and>
   get_trend numpy_overflow scenario_c ''cam_02'' = Inr ''up'' \<and>
   length (get_or_empty (density_history init_store) ''cam_02'') < 3 \<and>
   get_trend numpy_overflow init_store ''cam_02'' = Inr ''stable''"
proof -
  have h: "get_or_empty (density_history scenario_c) ''cam_02'' = [100, 130, 150]"
    and h0: "get_or_empty (density_history init_store) ''cam_02'' = []"
    by (simp_all add: scenario_c_store get_or_empty_def init_store_def)
  have small: "list_all small_count (slice_last 3 [100, 130, 150])"
    by (simp add: slice_last_def small_count_def)
  have delta: "exact_delta [100, 130, 150] = 25"
    by (simp add: exact_delta_def)
  from get_trend_label [of scenario_c "''cam_02''" numpy_overflow]
       get_trend_label [of init_store "''cam_02''" numpy_overflow]
  show ?thesis
    unfolding h h0 Let_def using small delta by simp
qed

text \<open>
  C7, as stated, fails. The history \<open>2 ^ 62\<close>, 0, \<open>2 ^ 62 + 6\<close> has the differences
  \<open>- 2 ^ 62\<close> and \<open>2 ^ 62 + 6\<close>, whose mean is 3; the second one is not a double and is
  cast to \<open>2 ^ 62\<close>, so the code's mean is 0 and the label \<open>stable\<close>, not \<open>up\<close>.
\<close>

theorem get_trend_big_counts:
  "density_history scenario_big ''cam_01'' = Some [2 ^ 62, 0, 2 ^ 62 + 6] \<and>
   exact_delta [2 ^ 62, 0, 2 ^ 62 + 6] = 3 \<and>
   get_trend numpy_overflow scenario_big ''cam_01'' = Inr ''stable''"
proof -
  have fit: "list_all fits_int64 [2 ^ 62, 0, 2 ^ 62 + 6]"
    by (simp add: fits_int64_def)
  have sl: "slice_last 3 [2 ^ 62, 0, 2 ^ 62 + 6 :: int] = [2 ^ 62, 0, 2 ^ 62 + 6]"
    by (simp add: slice_last_def)
  have "get_trend numpy_overflow scenario_big ''cam_01'' = Inr ''stable''"
    by (simp only: get_trend_def Let_def scenario_big_store get_or_empty_def fun_upd_same
          option.case sl mean_of_diff_def fit if_True np_mean_diff_big)
       simp
  moreover have "exact_delta [2 ^ 62, 0, 2 ^ 62 + 6] = 3"
    by (simp add: exact_delta_def)
  ultimately show ?thesis by (simp add: scenario_big_store)
qed

section \<open>The risk classifier\<close>

text \<open>
  C4. The classification does not decrease when the density grows, and at the
  boundaries: 0.8 is \<open>medium\<close> and not \<open>high\<close> (the comparison is strict), 0.50001 is
  \<open>medium\<close>, 0.5 is \<open>low\<close>.
\<close>

theorem get_risk_monotone:
  "(d1 \<le> d2 \<longrightarrow> risk_rank (get_risk d1) \<le> risk_rank (get_risk d2)) \<and>
   get_risk 0.8 = ''medium'' \<and> get_risk 0.8 \<noteq> ''high'' \<and>
   get_risk 0.50001 = ''medium'' \<and> get_risk 0.5 = ''low''"
  by (simp add: get_risk_def risk_rank_def)

theorem get_risk_monotone_witness:
  "(0.3::real) \<le> 0.9 \<and> risk_rank (get_risk 0.3) = 0 \<and> risk_rank (get_risk 0.9) = 2 \<and>
   risk_rank (get_risk 0.3) \<le> risk_rank (get_risk 0.9)"
  using get_risk_monotone [of "0.3" "0.9"]
  by (simp add: get_risk_def risk_rank_def)

section \<open>The risk predictor\<close>

lemma trend_based_short:
  "length (get_or_empty (density_history st) zid) < 3 \<Longrightarrow> trend_based w st zid dens = Inr ''low''"
  by (simp add: trend_based_def Let_def)

lemma trend_based_int64:
  assumes "3 \<le> length (get_or_empty (density_history st) zid)"
    and "list_all fits_int64 (get_or_empty (density_history st) zid)"
  shows "trend_based w st zid dens =
     Inr (get_risk (min (max (dens +
       np_mean (np_diff (slice_last 3 (get_or_empty (density_history st) zid))) / 200) 0) 1))"
  using assms by (simp add: trend_based_def Let_def mean_of_diff_def risk_of_prediction_eq)

lemma trend_based_returns:
  assumes "list_all fits_int64 (get_or_empty (density_history st) zid)"
  shows "\<exists>r. trend_based w st zid dens = Inr r"
proof (cases "3 \<le> length (get_or_empty (density_history st) zid)")
  case True
  from trend_based_int64 [OF True assms] show ?thesis by blast
next
  case False
  then show ?thesis by (simp add: trend_based_short)
qed




text \<open>
  C6. With a model loaded, a source other than \<open>cam_01\<close> gets the trend-based
  prediction, the same as with no model; \<open>cam_01\<close> gets the classification of the
  model's output for its latest recorded count, or the model's exception.
\<close>

theorem model_path_isolation:
  "(zid \<noteq> ''cam_01'' \<longrightarrow>
      predict_future_risk w (Some m) st zid dens = trend_based w st zid dens \<and>
      predict_future_risk w (Some m) st zid dens = predict_future_risk w None st zid dens) \<and>
   predict_future_risk w (Some m) st ''cam_01'' dens =
     (case m (prev_count st ''cam_01'') of
        Inl e \<Rightarrow> Inl e
      | Inr predicted_count \<Rightarrow> Inr (get_risk (min (max (predicted_count / 200) 0) 1)))"
  by (simp add: predict_future_risk_def model_based_def risk_of_prediction_eq split: sum.splits)

theorem model_path_isolation_witness:
  "''cam_02'' \<noteq> ''cam_01'' \<and>
   predict_future_risk numpy_overflow (Some failing_model) scenario_c ''cam_02'' 0.75 =
     predict_future_risk numpy_overflow None scenario_c ''cam_02'' 0.75 \<and>
   predict_future_risk numpy_overflow (Some dummy_model) scenario_c ''cam_01'' 0 = Inr ''low'' \<and>
   predict_future_risk numpy_overflow (Some dummy_model) scenario_b ''cam_01'' 0 = Inr ''high''"
proof -
  have ne: "''cam_02'' \<noteq> ''cam_01''" by simp
  from model_path_isolation [of "''cam_02''" numpy_overflow failing_model scenario_c "0.75"] ne
  have other: "predict_future_risk numpy_overflow (Some failing_model) scenario_c ''cam_02'' 0.75 =
     predict_future_risk numpy_overflow None scenario_c ''cam_02'' 0.75"
    by blast
  from model_path_isolation [of "''cam_02''" numpy_overflow dummy_model scenario_c 0]
  have "predict_future_risk numpy_overflow (Some dummy_model) scenario_c ''cam_01'' 0 =
     (case dummy_model (prev_count scenario_c ''cam_01'') of
        Inl e \<Rightarrow> Inl e
      | Inr predicted_count \<Rightarrow> Inr (get_risk (min (max (predicted_count / 200) 0) 1)))"
    by blast
  then have eligible_c:
    "predict_future_risk numpy_overflow (Some dummy_model) scenario_c ''cam_01'' 0 = Inr ''low''"
    by (simp add: prev_count_def scenario_c_store get_risk_def)
  from model_path_isolation [of "''cam_02''" numpy_overflow dummy_model scenario_b 0]
  have "predict_future_risk numpy_overflow (Some dummy_model) scenario_b ''cam_01'' 0 =
     (case dummy_model (prev_count scenario_b ''cam_01'') of
        Inl e \<Rightarrow> Inl e
      | Inr predicted_count \<Rightarrow> Inr (get_risk (min (max (predicted_count / 200) 0) 1)))"
    by blast
  then have eligible_b:
    "predict_future_risk numpy_overflow (Some dummy_model) scenario_b ''cam_01'' 0 = Inr ''high''"
    by (simp add: prev_count_def scenario_b_store get_risk_def)
  from ne other eligible_c eligible_b show ?thesis by blast
qed

text \<open>
  C5, as the code has it. With no model loaded the prediction is the trend-based one
  for every source, history and density. It is \<open>low\<close> for a history of fewer than 3
  entries, and it returns a value for every history whose entries fit 64 signed bits.
  With a model loaded, an exception of the model's \<open>predict\<close> for \<open>cam_01\<close> is not
  caught: the prediction raises it.
\<close>

theorem fallback_without_model:
  "predict_future_risk w None st zid dens = trend_based w st zid dens \<and>
   (length (get_or_empty (density_history st) zid) < 3 \<longrightarrow>
      predict_future_risk w None st zid dens = Inr ''low'') \<and>
   (list_all fits_int64 (get_or_empty (density_history st) zid) \<longrightarrow>
      (\<exists>r. predict_future_risk w None st zid dens = Inr r)) \<and>
   (m (prev_count st ''cam_01'') = Inl e \<longrightarrow>
      predict_future_risk w (Some m) st ''cam_01'' dens = Inl e)"
proof -
  have sel: "predict_future_risk w None st zid dens = trend_based w st zid dens"
    by (simp add: predict_future_risk_def)
  have raises: "predict_future_risk w (Some m) st ''cam_01'' dens = Inl e"
    if "m (prev_count st ''cam_01'') = Inl e"
    using that by (simp add: predict_future_risk_def model_based_def)
  from trend_based_short [of st zid w dens] trend_based_returns [of st zid w dens] raises
  show ?thesis
    unfolding sel by blast
qed

theorem fallback_without_model_witness:
  "length (get_or_empty (density_history scenario_b) ''cam_02'') < 3 \<and>
   predict_future_risk numpy_overflow None scenario_b ''cam_02'' 0.9 = Inr ''low'' \<and>
   list_all fits_int64 (get_or_empty (density_history scenario_b) ''cam_01'') \<and>
   (\<exists>r. predict_future_risk numpy_overflow None scenario_b ''cam_01'' 0.9 = Inr r) \<and>
   failing_model (prev_count scenario_b ''cam_01'') = Inl ModelError \<and>
   predict_future_risk numpy_overflow (Some failing_model) scenario_b ''cam_01'' 0.9 = Inl ModelError"
proof -
  have short: "length (get_or_empty (density_history scenario_b) ''cam_02'') < 3"
    by (simp add: scenario_b_store get_or_empty_def)
  have fit: "list_all fits_int64 (get_or_empty (density_history scenario_b) ''cam_01'')"
    by (simp add: scenario_b_store get_or_empty_def fits_int64_def)
  have raises: "failing_model (prev_count scenario_b ''cam_01'') = Inl ModelError"
    by simp
  from fallback_without_model [of numpy_overflow scenario_b "''cam_02''" "0.9" failing_model ModelError]
    short raises
  have a: "predict_future_risk numpy_overflow None scenario_b ''cam_02'' 0.9 = Inr ''low''"
    and c: "predict_future_risk numpy_overflow (Some failing_model) scenario_b ''cam_01'' 0.9 = Inl ModelError"
    by blast+
  from fallback_without_model [of numpy_overflow scenario_b "''cam_01''" "0.9" failing_model ModelError]
    fit
  have b: "\<exists>r. predict_future_risk numpy_overflow None scenario_b ''cam_01'' 0.9 = Inr r"
    by blast
  from short a fit b raises c show ?thesis by blast
qed

text \<open>
  C5, as stated, fails: with a model whose \<open>predict\<close> raises, the prediction for
  \<open>cam_01\<close> on the empty store is the exception, not the fallback's \<open>low\<close>.
\<close>

theorem model_failure_not_caught:
  "predict_future_risk numpy_overflow (Some failing_model) init_store ''cam_01'' 0 = Inl ModelError \<and>
   predict_future_risk numpy_overflow None init_store ''cam_01'' 0 = Inr ''low''"
  by (simp add: predict_future_risk_def model_based_def trend_based_def get_or_empty_def
        init_store_def)

section \<open>The status snapshot\<close>

lemma slice_last_fit: "list_all fits_int64 h \<Longrightarrow> list_all fits_int64 (slice_last 3 h)"
  by (auto simp: slice_last_def list_all_iff dest: in_set_dropD)

lemma trend_based_raises:
  "trend_based w st zid d = Inl e \<Longrightarrow>
     \<not> list_all fits_int64 (get_or_empty (density_history st) zid)"
  using trend_based_returns [of st zid w d] by auto

lemma get_trend_raises:
  "get_trend w st s = Inl e \<Longrightarrow> \<not> list_all fits_int64 (get_or_empty (density_history st) s)"
  by (auto simp: get_trend_def Let_def mean_of_diff_def slice_last_fit split: if_splits sum.splits)

lemma predict_raises:
  "predict_future_risk w model st zid d = Inl e \<Longrightarrow>
     (\<exists>m. model = Some m \<and> zid = ''cam_01'' \<and> m (prev_count st ''cam_01'') = Inl e) \<or>
     \<not> list_all fits_int64 (get_or_empty (density_history st) zid)"
  by (auto simp: predict_future_risk_def model_based_def
        split: option.splits if_splits sum.splits dest: trend_based_raises)

lemma get_system_status_store: "snd (get_system_status w model now1 now2 st) = st"
  by (simp add: get_system_status_def Let_def split: sum.splits)

lemma get_system_status_raises:
  assumes "fst (get_system_status w model now1 now2 st) = Inl e"
  shows "float_of_int (get_or_zero (current_counts st) ''cam_01'') = Inl e \<or>
         float_of_int (get_or_zero (current_counts st) ''cam_02'') = Inl e \<or>
         (\<exists>m. model = Some m \<and> m (prev_count st ''cam_01'') = Inl e) \<or>
         \<not> list_all fits_int64 (get_or_empty (density_history st) ''cam_01'') \<or>
         \<not> list_all fits_int64 (get_or_empty (density_history st) ''cam_02'')"
  using assms
  by (auto simp: get_system_status_def Let_def split: sum.splits
        dest: predict_raises get_trend_raises)

lemma get_system_status_returns:
  assumes "fst (get_system_status w model now1 now2 st) = Inr out"
  shows "\<exists>fa fb pa pb ta tb.
     float_of_int (get_or_zero (current_counts st) ''cam_01'') = Inr fa \<and>
     float_of_int (get_or_zero (current_counts st) ''cam_02'') = Inr fb \<and>
     out = \<lparr>zones = [\<lparr>zone_id = ''gate_a'', display_name = ''Main Gate A'',
                      density = min (fa / 200) 1, risk_level = get_risk (min (fa / 200) 1),
                      predicted_risk_level = pa, trend = ta\<rparr>,
                     \<lparr>zone_id = ''stage_front'', display_name = ''Stage Front'',
                      density = min (fb / 200) 1, risk_level = get_risk (min (fb / 200) 1),
                      predicted_risk_level = pb, trend = tb\<rparr>],
            alerts = make_alerts now1 now2
                    \<lparr>zone_id = ''gate_a'', display_name = ''Main Gate A'',
                      density = min (fa / 200) 1, risk_level = get_risk (min (fa / 200) 1),
                      predicted_risk_level = pa, trend = ta\<rparr>
                     \<lparr>zone_id = ''stage_front'', display_name = ''Stage Front'',
                      density = min (fb / 200) 1, risk_level = get_risk (min (fb / 200) 1),
                      predicted_risk_level = pb, trend = tb\<rparr>\<rparr>"
  using assms
  by (auto simp: get_system_status_def Let_def split: sum.splits)

lemma get_system_status_total:
  assumes "float_of_int (get_or_zero (current_counts st) ''cam_01'') = Inr fa"
    and "float_of_int (get_or_zero (current_counts st) ''cam_02'') = Inr fb"
    and "model = None \<or> (\<exists>m p. model = Some m \<and> m (prev_count st ''cam_01'') = Inr p)"
    and "list_all fits_int64 (get_or_empty (density_history st) ''cam_01'')"
    and "list_all fits_int64 (get_or_empty (density_history st) ''cam_02'')"
  shows "\<exists>out. fst (get_system_status w model now1 now2 st) = Inr out"
proof (cases "fst (get_system_status w model now1 now2 st)")
  case (Inl e)
  from get_system_status_raises [OF Inl] assms show ?thesis by auto
next
  case (Inr out)
  then show ?thesis by blast
qed

lemmas status_eval =
  get_system_status_def Let_def get_or_zero_def predict_future_risk_def trend_based_def
  get_or_empty_def mean_of_diff_def fits_int64_def slice_last_def risk_of_prediction_def
  get_risk_def get_trend_def make_alerts_def float_of_int_small np_mean_diff_small
  small_count_def

text \<open>
  C2, as the code has it. When the status operation returns, the zones are \<open>gate_a\<close> and
  \<open>stage_front\<close>, in this order, with the densities \<open>min (count / 200) 1\<close> of the latest
  counts of \<open>cam_01\<close> and \<open>cam_02\<close> and the risk levels of these densities, and the
  alerts are, in zone order, one alert for each zone of risk level \<open>high\<close>, with that
  zone's id and the id \<open>alert_1\<close> for \<open>gate_a\<close> and \<open>alert_2\<close> for \<open>stage_front\<close>; a
  zone of another risk level has no alert. When it raises instead, a latest count was
  too large for a float, or the loaded model's \<open>predict\<close> raised for \<open>cam_01\<close>, or a
  history window holds an integer that does not fit 64 signed bits. So it returns
  whenever both latest counts convert to a float, the model is absent or returns, and
  the windows fit.
\<close>

theorem alerts_for_high_zones:
  "(case fst (get_system_status w model now1 now2 st) of
     Inl e \<Rightarrow>
       float_of_int (get_or_zero (current_counts st) ''cam_01'') = Inl e \<or>
       float_of_int (get_or_zero (current_counts st) ''cam_02'') = Inl e \<or>
       (\<exists>m. model = Some m \<and> m (prev_count st ''cam_01'') = Inl e) \<or>
       \<not> list_all fits_int64 (get_or_empty (density_history st) ''cam_01'') \<or>
       \<not> list_all fits_int64 (get_or_empty (density_history st) ''cam_02'')
   | Inr out \<Rightarrow>
       (\<exists>fa fb.
          float_of_int (get_or_zero (current_counts st) ''cam_01'') = Inr fa \<and>
          float_of_int (get_or_zero (current_counts st) ''cam_02'') = Inr fb \<and>
          map density (zones out) = [min (fa / 200) 1, min (fb / 200) 1]) \<and>
       map zone_id (zones out) = [''gate_a'', ''stage_front''] \<and>
       (\<forall>z \<in> set (zones out). risk_level z = get_risk (density z)) \<and>
       map (\<lambda>a. (alert_id a, alert_zone_id a)) (alerts out) =
         map (\<lambda>z. (if zone_id z = ''gate_a'' then ''alert_1'' else ''alert_2'', zone_id z))
           (filter (\<lambda>z. risk_level z = ''high'') (zones out)))
   \<and>
   ((\<exists>fa. float_of_int (get_or_zero (current_counts st) ''cam_01'') = Inr fa) \<and>
    (\<exists>fb. float_of_int (get_or_zero (current_counts st) ''cam_02'') = Inr fb) \<and>
    (model = None \<or> (\<exists>m p. model = Some m \<and> m (prev_count st ''cam_01'') = Inr p)) \<and>
    list_all fits_int64 (get_or_empty (density_history st) ''cam_01'') \<and>
    list_all fits_int64 (get_or_empty (density_history st) ''cam_02'')
    \<longrightarrow> (\<exists>out. fst (get_system_status w model now1 now2 st) = Inr out))"
proof
  show "case fst (get_system_status w model now1 now2 st) of
     Inl e \<Rightarrow>
       float_of_int (get_or_zero (current_counts st) ''cam_01'') = Inl e \<or>
       float_of_int (get_or_zero (current_counts st) ''cam_02'') = Inl e \<or>
       (\<exists>m. model = Some m \<and> m (prev_count st ''cam_01'') = Inl e) \<or>
       \<not> list_all fits_int64 (get_or_empty (density_history st) ''cam_01'') \<or>
       \<not> list_all fits_int64 (get_or_empty (density_history st) ''cam_02'')
   | Inr out \<Rightarrow>
       (\<exists>fa fb.
          float_of_int (get_or_zero (current_counts st) ''cam_01'') = Inr fa \<and>
          float_of_int (get_or_zero (current_counts st) ''cam_02'') = Inr fb \<and>
          map density (zones out) = [min (fa / 200) 1, min (fb / 200) 1]) \<and>
       map zone_id (zones out) = [''gate_a'', ''stage_front''] \<and>
       (\<forall>z \<in> set (zones out). risk_level z = get_risk (density z)) \<and>
       map (\<lambda>a. (alert_id a, alert_zone_id a)) (alerts out) =
         map (\<lambda>z. (if zone_id z = ''gate_a'' then ''alert_1'' else ''alert_2'', zone_id z))
           (filter (\<lambda>z. risk_level z = ''high'') (zones out))"
  proof (cases "fst (get_system_status w model now1 now2 st)")
    case (Inl e)
    from get_system_status_raises [OF Inl] show ?thesis
      by (simp add: Inl)
  next
    case (Inr out)
    from get_system_status_returns [OF Inr] obtain fa fb pa pb ta tb where
      fa: "float_of_int (get_or_zero (current_counts st) ''cam_01'') = Inr fa" and
      fb: "float_of_int (get_or_zero (current_counts st) ''cam_02'') = Inr fb" and
      out: "out = \<lparr>zones = [\<lparr>zone_id = ''gate_a'', display_name = ''Main Gate A'',
                      density = min (fa / 200) 1, risk_level = get_risk (min (fa / 200) 1),
                      predicted_risk_level = pa, trend = ta\<rparr>,
                     \<lparr>zone_id = ''stage_front'', display_name = ''Stage Front'',
                      density = min (fb / 200) 1, risk_level = get_risk (min (fb / 200) 1),
                      predicted_risk_level = pb, trend = tb\<rparr>],
            alerts = make_alerts now1 now2
                    \<lparr>zone_id = ''gate_a'', display_name = ''Main Gate A'',
                      density = min (fa / 200) 1, risk_level = get_risk (min (fa / 200) 1),
                      predicted_risk_level = pa, trend = ta\<rparr>
                     \<lparr>zone_id = ''stage_front'', display_name = ''Stage Front'',
                      density = min (fb / 200) 1, risk_level = get_risk (min (fb / 200) 1),
                      predicted_risk_level = pb, trend = tb\<rparr>\<rparr>"
      by blast
    show ?thesis
      unfolding Inr sum.case out by (simp add: make_alerts_def fa fb)
  qed
next
  show "(\<exists>fa. float_of_int (get_or_zero (current_counts st) ''cam_01'') = Inr fa) \<and>
    (\<exists>fb. float_of_int (get_or_zero (current_counts st) ''cam_02'') = Inr fb) \<and>
    (model = None \<or> (\<exists>m p. model = Some m \<and> m (prev_count st ''cam_01'') = Inr p)) \<and>
    list_all fits_int64 (get_or_empty (density_history st) ''cam_01'') \<and>
    list_all fits_int64 (get_or_empty (density_history st) ''cam_02'')
    \<longrightarrow> (\<exists>out. fst (get_system_status w model now1 now2 st) = Inr out)"
    using get_system_status_total [of st _ _ model w now1 now2] by blast
qed

theorem alerts_for_high_zones_witness:
  "float_of_int (get_or_zero (current_counts scenario_b) ''cam_01'') = Inr 260 \<and>
   float_of_int (get_or_zero (current_counts scenario_b) ''cam_02'') = Inr 0 \<and>
   list_all fits_int64 (get_or_empty (density_history scenario_b) ''cam_01'') \<and>
   list_all fits_int64 (get_or_empty (density_history scenario_b) ''cam_02'') \<and>
   (\<exists>out. fst (get_system_status numpy_overflow None 5 6 scenario_b) = Inr out \<and>
     map density (zones out) = [1, 0] \<and>
     map risk_level (zones out) = [''high'', ''low''] \<and>
     map (\<lambda>a. (alert_id a, alert_zone_id a)) (alerts out) = [(''alert_1'', ''gate_a'')])"
  using alerts_for_high_zones [where w = numpy_overflow and model = None and ?now1.0 = 5
      and ?now2.0 = 6 and st = scenario_b]
  by (simp add: status_eval scenario_b_store)

text \<open>
  C2, as stated, fails: in the store of scenario B the latest count of \<open>cam_01\<close> is 260,
  so the density of \<open>gate_a\<close> is 1 and its risk level \<open>high\<close>; with a model whose
  \<open>predict\<close> raises, the status operation raises and no alert is emitted.
\<close>

theorem raising_model_no_alert:
  "current_counts scenario_b ''cam_01'' = Some 260 \<and>
   float_of_int 260 = Inr 260 \<and>
   get_risk (min (260 / 200) 1) = ''high'' \<and>
   fst (get_system_status numpy_overflow (Some failing_model) 1 2 scenario_b) = Inl ModelError"
  by (simp add: status_eval model_based_def scenario_b_store)

text \<open>
  C9. From the empty store, with no model, after the readings 100, 150, 220, 260 of
  \<open>cam_01\<close>: the window holds the four counts, the density of \<open>gate_a\<close> is
  \<open>min (260 / 200) 1 = 1\<close>, its risk is \<open>high\<close>, the trend delta over 150, 220, 260 is
  55 and the trend \<open>up\<close>, and the only alert is the one of \<open>gate_a\<close>.
\<close>

theorem scenario_b_status:
  "density_history (ingest_all (map (reading ''cam_01'') [100, 150, 220, 260]) init_store)
      ''cam_01'' = Some [100, 150, 220, 260] \<and>
   min (real_of_int 260 / 200) 1 = (1::real) \<and>
   np_mean (np_diff (slice_last 3 [100, 150, 220, 260])) = 55 \<and>
   fst (get_system_status w None now1 now2
          (ingest_all (map (reading ''cam_01'') [100, 150, 220, 260]) init_store)) =
     Inr \<lparr>zones =
            [\<lparr>zone_id = ''gate_a'', display_name = ''Main Gate A'', density = 1,
              risk_level = ''high'', predicted_risk_level = ''high'', trend = ''up''\<rparr>,
             \<lparr>zone_id = ''stage_front'', display_name = ''Stage Front'', density = 0,
              risk_level = ''low'', predicted_risk_level = ''low'', trend = ''stable''\<rparr>],
          alerts =
            [\<lparr>alert_id = ''alert_1'', alert_timestamp = now1, alert_zone_id = ''gate_a'',
              title = warning_sign @ '' High Risk at Main Gate A'',
              message = ''Crowd density critical. Please redirect flow.''\<rparr>]\<rparr>"
proof -
  have b: "ingest_all (map (reading ''cam_01'') [100, 150, 220, 260]) init_store = scenario_b"
    by (simp add: scenario_b_def)
  show ?thesis
    unfolding b by (simp add: status_eval scenario_b_store)
qed

section \<open>Reading twice\<close>

text \<open>
  C8, as stated, fails: each alert carries the clock reading of its call, so a second
  call, on the store the first one left and at a later time, returns another status.
\<close>

theorem repeated_read_differs:
  "fst (get_system_status numpy_overflow None 2 2
          (snd (get_system_status numpy_overflow None 1 1 scenario_b)))
     \<noteq> fst (get_system_status numpy_overflow None 1 1 scenario_b)"
  by (simp add: status_eval scenario_b_store)

lemma make_alerts_without_timestamps:
  "map (\<lambda>a. a\<lparr>alert_timestamp := 0\<rparr>) (make_alerts now1 now2 z1 z2) =
   map (\<lambda>a. a\<lparr>alert_timestamp := 0\<rparr>) (make_alerts now1' now2' z1 z2)"
  by (simp add: make_alerts_def)

lemma status_without_timestamps:
  "map_sum id without_timestamps (fst (get_system_status w model now1' now2' st)) =
   map_sum id without_timestamps (fst (get_system_status w model now1 now2 st))"
  by (simp add: get_system_status_def Let_def without_timestamps_def
       make_alerts_without_timestamps [of now1 now2 _ _ now1' now2'] split: sum.splits)

text \<open>
  C8, as the code has it. The status operation leaves the store as it found it. A second
  call with no ingestion in between returns the same zones and the same alerts up to
  their timestamps (or raises the same exception), whatever the clock readings
  are; with the same clock readings it returns the same status.
\<close>

theorem read_is_repeatable:
  "snd (get_system_status w model now1 now2 st) = st \<and>
   map_sum id without_timestamps
      (fst (get_system_status w model now1' now2'
              (snd (get_system_status w model now1 now2 st)))) =
   map_sum id without_timestamps (fst (get_system_status w model now1 now2 st)) \<and>
   fst (get_system_status w model now1 now2 (snd (get_system_status w model now1 now2 st))) =
   fst (get_system_status w model now1 now2 st)"
  by (simp only: get_system_status_store
        status_without_timestamps [of w model now1' now2' st now1 now2])

theorem read_is_repeatable_witness:
  "snd (get_system_status numpy_overflow None 1 1 scenario_b) = scenario_b \<and>
   map_sum id without_timestamps (fst (get_system_status numpy_overflow None 2 2 scenario_b)) =
   map_sum id without_timestamps (fst (get_system_status numpy_overflow None 1 1 scenario_b)) \<and>
   (\<exists>out. fst (get_system_status numpy_overflow None 2 2 scenario_b) = Inr out \<and>
      length (alerts out) = 1)"
proof -
  from read_is_repeatable [of numpy_overflow None 1 1 scenario_b 2 2]
  have kept: "snd (get_system_status numpy_overflow None 1 1 scenario_b) = scenario_b"
    and same:
      "map_sum id without_timestamps
        (fst (get_system_status numpy_overflow None 2 2
                (snd (get_system_status numpy_overflow None 1 1 scenario_b)))) =
       map_sum id without_timestamps (fst (get_system_status numpy_overflow None 1 1 scenario_b))"
    by blast+
  have one: "\<exists>out. fst (get_system_status numpy_overflow None 2 2 scenario_b) = Inr out \<and>
      length (alerts out) = 1"
    by (simp add: status_eval scenario_b_store)
  from kept same one show ?thesis by simp
qed

end
